theory Spec2Isabelle
  imports Complex_Main "HOL-Library.Sublist" "HOL-Library.AList" "HOL-Library.Multiset"
begin

section \<open>Strings and numbers of the source language\<close>

text \<open>
  A JavaScript string is a sequence of UTF-16 code units. It is modelled as a
  \<^typ>\<open>string\<close> that holds the UTF-8 encoding of the same text, so that an ASCII
  character is one element in both. What the language computes from the Unicode tables
  (case mapping, white space, the count of code units, matching that ignores case) is
  computed here on ASCII text, where the tables play no part, and is taken from a record of
  tables on text with a character outside ASCII. The record is a parameter of the model:
  every theorem holds for all tables, the ones of the language among them.

  JavaScript numbers are modelled as rationals: every number the modelled code computes is
  a small integer, a quotient \<open>hits / 3\<close>, a sum of the weights \<open>2\<close>, \<open>1\<close>, \<open>0.5\<close>,
  or a two-decimal literal, and the comparisons and the two-decimal rounding applied to them
  give the same results on doubles as on the rationals they approximate.
\<close>

record unicode =
  u_toLowerCase :: "string \<Rightarrow> string"
  u_trim :: "string \<Rightarrow> string"
  u_length :: "string \<Rightarrow> nat"
  u_regs_test :: "string \<Rightarrow> string \<Rightarrow> bool"
  u_store_regex :: "string \<Rightarrow> string \<Rightarrow> bool"

definition is_ascii :: "string \<Rightarrow> bool" where
  "is_ascii s = list_all (\<lambda>c. (of_char c :: nat) < 128) s"

text \<open>
  \<open>String.prototype.includes\<close>: \<open>w\<close> occurs in \<open>t\<close> as a contiguous substring. On
  well-formed text an occurrence among the code units is an occurrence among the bytes of
  the encoding, and conversely.
\<close>

fun str_includes :: "string \<Rightarrow> string \<Rightarrow> bool" where
  "str_includes [] w = (w = [])"
| "str_includes (c # cs) w = (prefix w (c # cs) \<or> str_includes cs w)"

text \<open>\<open>String.prototype.toLowerCase\<close>: on ASCII text only the letters A to Z change.\<close>

definition ascii_lower :: "char \<Rightarrow> char" where
  "ascii_lower c =
     (let n = (of_char c :: nat) in if 65 \<le> n \<and> n \<le> 90 then char_of (n + 32) else c)"

definition toLowerCase :: "unicode \<Rightarrow> string \<Rightarrow> string" where
  "toLowerCase U s = (if is_ascii s then map ascii_lower s else u_toLowerCase U s)"

text \<open>
  \<open>String.prototype.trim\<close>: white space and line terminators are removed at both ends.
  The ASCII ones are tab, line feed, vertical tab, form feed, carriage return and space.
\<close>

definition is_space :: "char \<Rightarrow> bool" where
  "is_space c = ((of_char c :: nat) \<in> {9, 10, 11, 12, 13, 32})"

definition trim :: "unicode \<Rightarrow> string \<Rightarrow> string" where
  "trim U s =
     (if is_ascii s then rev (dropWhile is_space (rev (dropWhile is_space s)))
      else u_trim U s)"

text \<open>The property \<open>length\<close> of a string: its number of code units.\<close>

definition js_length :: "unicode \<Rightarrow> string \<Rightarrow> nat" where
  "js_length U s = (if is_ascii s then length s else u_length U s)"

text \<open>\<open>Array.prototype.join\<close> on strings.\<close>

fun join :: "string \<Rightarrow> string list \<Rightarrow> string" where
  "join sep [] = []"
| "join sep [x] = x"
| "join sep (x # y # ys) = x @ sep @ join sep (y # ys)"

text \<open>The decimal rendering of a non-negative integer inside a template string.\<close>

definition digit_char :: "nat \<Rightarrow> char" where
  "digit_char d = char_of (48 + d)"

fun show_nat :: "nat \<Rightarrow> string" where
  "show_nat n = (if n < 10 then [digit_char n] else show_nat (n div 10) @ [digit_char (n mod 10)])"

declare show_nat.simps [simp del]

text \<open>
  \<open>Number(x.toFixed(2))\<close> for \<open>x \<ge> 0\<close>: the multiple of \<open>1/100\<close> nearest to \<open>x\<close>, the
  larger one when two are equally near.
\<close>

definition toFixed2 :: "rat \<Rightarrow> rat" where
  "toFixed2 x = of_int \<lfloor>x * 100 + 1 / 2\<rfloor> / 100"

text \<open>\<open>a || b\<close> on numbers: zero is falsy.\<close>

definition num_or :: "rat \<Rightarrow> rat \<Rightarrow> rat" where
  "num_or a b = (if a = 0 then b else a)"

section \<open>The keyword classifier and the reply drafter (agent/llmProvider.js)\<close>

record heuristic =
  cat :: string
  words :: "string list"

definition billing_words :: "string list" where
  "billing_words = [''refund'', ''invoice'', ''charge'', ''payment'', ''card'', ''billing'']"

definition tech_words :: "string list" where
  "tech_words = [''error'', ''bug'', ''stack'', ''500'', ''crash'', ''login'', ''auth'', ''timeout'']"

definition shipping_words :: "string list" where
  "shipping_words =
     [''delivery'', ''shipment'', ''tracking'', ''package'', ''courier'', ''delayed'']"

definition heuristics :: "heuristic list" where
  "heuristics =
     [\<lparr>cat = ''billing'', words = billing_words\<rparr>,
      \<lparr>cat = ''tech'', words = tech_words\<rparr>,
      \<lparr>cat = ''shipping'', words = shipping_words\<rparr>]"

record best =
  bcat :: string
  score :: nat

record classification =
  predictedCategory :: string
  confidence :: rat

text \<open>\<open>h.words.reduce((a,w) => a + (t.includes(w) ? 1 : 0), 0)\<close>\<close>

definition hits :: "string \<Rightarrow> string list \<Rightarrow> nat" where
  "hits t ws = foldl (\<lambda>a w. a + (if str_includes t w then 1 else 0)) 0 ws"

text \<open>One iteration of the loop over \<open>heuristics\<close>.\<close>

definition consider_heuristic :: "string \<Rightarrow> best \<Rightarrow> heuristic \<Rightarrow> best" where
  "consider_heuristic t b h =
     (let n = hits t (words h) in if n > score b then \<lparr>bcat = cat h, score = n\<rparr> else b)"

definition best_heuristic :: "string \<Rightarrow> best" where
  "best_heuristic t = foldl (consider_heuristic t) \<lparr>bcat = ''other'', score = 0\<rparr> heuristics"

text \<open>
  \<open>(text || '').toLowerCase()\<close>. The argument is \<open>None\<close> for \<open>null\<close> or
  \<open>undefined\<close>; \<open>||\<close> turns these, and the empty string, into the empty string.
\<close>

definition lowered :: "unicode \<Rightarrow> string option \<Rightarrow> string" where
  "lowered U text = toLowerCase U (case text of None \<Rightarrow> [] | Some s \<Rightarrow> s)"

text \<open>\<open>classify(text)\<close>\<close>

definition classify :: "unicode \<Rightarrow> string option \<Rightarrow> classification" where
  "classify U text =
     (let t = lowered U text;
          b = best_heuristic t;
          c = min 1 (num_or (of_nat (score b) / 3) (4 / 10))
      in \<lparr>predictedCategory = bcat b, confidence = toFixed2 c\<rparr>)"

record article =
  a_id :: nat
  a_title :: string
  a_body :: "string option"
  a_tags :: "string list option"
  a_status :: string

record drafted =
  draftReply :: string
  citations :: "nat list"

text \<open>
  \<open>draft(_text, articles)\<close>. The apostrophe of the closing line is U+2019, written as
  its three UTF-8 bytes.
\<close>

definition draft :: "string \<Rightarrow> article list \<Rightarrow> drafted" where
  "draft text articles =
     (let lines = [''Thanks for reaching out. Here's what might help:'']
                  @ map (\<lambda>(i, a). show_nat (i + 1) @ ''. '' @ a_title a) (enumerate 0 articles)
                  @ [[CHR 0x0A] @ ''If this doesn'' @ [CHR 0xE2, CHR 0x80, CHR 0x99]
                     @ ''t resolve it, reply and a human agent will assist.'']
      in \<lparr>draftReply = join [CHR 0x0A] lines, citations = map a_id articles\<rparr>)"

text \<open>
  The confidence policy (a) in the words of the specification: \<open>min(1, hits/3)\<close>, with
  floor \<open>0.4\<close> when \<open>hits\<close> is zero, rounded to two decimals.
\<close>

definition round_2dp :: "rat \<Rightarrow> rat" where
  "round_2dp x = of_int (round (x * 100)) / 100"

definition policy_a :: "nat \<Rightarrow> rat" where
  "policy_a h = round_2dp (if h = 0 then 4 / 10 else min 1 (of_nat h / 3))"

section \<open>Knowledge-base search (services/kbSearch.js)\<close>

text \<open>
  \<open>regs\<close> is the query with every regular-expression metacharacter escaped, compiled
  with the flag \<open>i\<close>: \<open>regs.test(s)\<close> holds when the query occurs in \<open>s\<close>, letter case
  ignored. The database evaluates the same pattern with its own engine.
\<close>

definition ascii_match :: "string \<Rightarrow> string \<Rightarrow> bool" where
  "ascii_match q s = str_includes (map ascii_lower s) (map ascii_lower q)"

definition regs_test :: "unicode \<Rightarrow> string \<Rightarrow> string \<Rightarrow> bool" where
  "regs_test U q s = (if is_ascii q \<and> is_ascii s then ascii_match q s else u_regs_test U q s)"

definition store_regex :: "unicode \<Rightarrow> string \<Rightarrow> string \<Rightarrow> bool" where
  "store_regex U q s = (if is_ascii q \<and> is_ascii s then ascii_match q s else u_store_regex U q s)"

text \<open>
  \<open>Article.find({status: 'published', $or: [{title: regs}, {body: regs}, {tags: regs}]})\<close>
  over the collection, in the collection's order. A pattern on an array field matches when
  one element matches; a missing field matches nothing.
\<close>

definition find_published :: "unicode \<Rightarrow> article list \<Rightarrow> string \<Rightarrow> article list" where
  "find_published U coll q =
     filter (\<lambda>a. a_status a = ''published'' \<and>
                 (store_regex U q (a_title a)
                  \<or> (case a_body a of None \<Rightarrow> False | Some b \<Rightarrow> store_regex U q b)
                  \<or> (case a_tags a of None \<Rightarrow> False | Some ts \<Rightarrow> list_ex (store_regex U q) ts)))
       coll"

record scored =
  s_article :: article
  s_score :: rat

definition score_article :: "unicode \<Rightarrow> string \<Rightarrow> article \<Rightarrow> scored" where
  "score_article U q a =
     (let titleHit = (if regs_test U q (a_title a) then 2 else 0);
          tagHit = (if list_ex (regs_test U q) (case a_tags a of None \<Rightarrow> [] | Some ts \<Rightarrow> ts)
                    then 1 else 0);
          bodyHit = (if regs_test U q (case a_body a of None \<Rightarrow> [] | Some b \<Rightarrow> b)
                     then 1 / 2 else 0)
      in \<lparr>s_article = a, s_score = titleHit + tagHit + bodyHit\<rparr>)"

text \<open>
  \<open>Array.prototype.sort(cmp)\<close>. The language standard requires the sort to be stable
  (ECMAScript 2019), so for a consistent comparator the result is the one of a stable
  insertion sort: an element goes before the first element it does not compare greater than.
\<close>

fun insert_by :: "('a \<Rightarrow> 'a \<Rightarrow> rat) \<Rightarrow> 'a \<Rightarrow> 'a list \<Rightarrow> 'a list" where
  "insert_by cmp x [] = [x]"
| "insert_by cmp x (y # ys) = (if cmp x y \<le> 0 then x # y # ys else y # insert_by cmp x ys)"

definition js_sort :: "('a \<Rightarrow> 'a \<Rightarrow> rat) \<Rightarrow> 'a list \<Rightarrow> 'a list" where
  "js_sort cmp xs = foldr (insert_by cmp) xs []"

text \<open>
  \<open>xs.slice(0, n)\<close> for an integer \<open>n\<close>: a negative \<open>n\<close> counts from the end of the
  array, and the end is clamped to the bounds of the array.
\<close>

definition slice0 :: "'a list \<Rightarrow> int \<Rightarrow> 'a list" where
  "slice0 xs n = take (nat (if n < 0 then int (length xs) + n else n)) xs"

text \<open>The score line 16 of the search computes for an article, and the trimmed query.\<close>

definition article_score :: "unicode \<Rightarrow> string \<Rightarrow> article \<Rightarrow> rat" where
  "article_score U q a = s_score (score_article U q a)"

definition query_text :: "unicode \<Rightarrow> string option \<Rightarrow> string" where
  "query_text U query = trim U (case query of None \<Rightarrow> [] | Some s \<Rightarrow> s)"

text \<open>
  \<open>searchTop(query, limit)\<close>, with the article collection as an argument. The query is
  \<open>None\<close> for \<open>null\<close> or \<open>undefined\<close>.
\<close>

definition searchTop :: "unicode \<Rightarrow> article list \<Rightarrow> string option \<Rightarrow> int \<Rightarrow> article list" where
  "searchTop U coll query limit =
     (case query of
        None \<Rightarrow> []
      | Some qs \<Rightarrow>
          if qs = [] \<or> trim U qs = [] then []
          else
            let q = trim U qs;
                results = find_published U coll q;
                scored = js_sort (\<lambda>a b. s_score b - s_score a) (map (score_article U q) results)
            in map s_article (slice0 scored limit))"

text \<open>
  The ranking the specification describes for a query and its candidates: the candidates
  in a stable sort by falling score.
\<close>

definition ranked :: "unicode \<Rightarrow> string \<Rightarrow> article list \<Rightarrow> article list" where
  "ranked U q candidates = sort_key (\<lambda>a. - article_score U q a) candidates"

section \<open>Configuration values and the decision\<close>

text \<open>
  A configuration value has the schema type \<open>Mixed\<close>; the two keys the decision reads are
  stored as a boolean and as a number, and these are the values modelled, with the
  language's truthiness and its conversion to a number.
\<close>

datatype jsval = JBool bool | JNum rat

fun truthy :: "jsval \<Rightarrow> bool" where
  "truthy (JBool b) = b"
| "truthy (JNum n) = (n \<noteq> 0)"

fun to_number :: "jsval \<Rightarrow> rat" where
  "to_number (JBool b) = (if b then 1 else 0)"
| "to_number (JNum n) = n"

text \<open>Line 60 of the triage service:
  \<open>(autoClose && cls.confidence >= threshold) ? 'auto_close' : 'human'\<close>.\<close>

definition decision_expr :: "jsval \<Rightarrow> rat \<Rightarrow> jsval \<Rightarrow> string" where
  "decision_expr autoClose conf threshold =
     (if truthy autoClose \<and> to_number threshold \<le> conf then ''auto_close'' else ''human'')"

text \<open>\<open>v || d\<close> where \<open>v\<close> is a property that may be absent.\<close>

definition js_or :: "jsval option \<Rightarrow> jsval \<Rightarrow> jsval" where
  "js_or v d = (case v of None \<Rightarrow> d | Some x \<Rightarrow> if truthy x then x else d)"

text \<open>
  \<open>Config.getAllAsObject()\<close>: the stored entries folded into one object, a later entry
  overwriting an earlier one with the same key.
\<close>

definition getAllAsObject :: "(string \<times> jsval) list \<Rightarrow> (string \<rightharpoonup> jsval)" where
  "getAllAsObject cfgs = foldl (\<lambda>acc (k, v). acc(k \<mapsto> v)) Map.empty cfgs"

text \<open>
  \<open>AgentService.makeDecision\<close> (services/agentService.js, in the source listing lines 464
  to 494 of kbSearch.js): the field \<open>autoClosed\<close> of its result, as a function of
  the stored configuration and of the suggestion's confidence. The explanatory \<open>reason\<close>
  text and the performance logging have no influence on it and are left out.
\<close>

definition makeDecision :: "(string \<times> jsval) list \<Rightarrow> rat \<Rightarrow> bool" where
  "makeDecision cfgs conf =
     (let config = getAllAsObject cfgs;
          autoCloseEnabled = js_or (config ''autoCloseEnabled'') (JBool False);
          confidenceThreshold = js_or (config ''confidenceThreshold'') (JNum (78 / 100));
          shouldAutoClose = (truthy autoCloseEnabled \<and> to_number confidenceThreshold \<le> conf)
      in shouldAutoClose)"

section \<open>The document models (models/*.js)\<close>

text \<open>
  The document stores are association lists and lists inside one database value, which the
  pipeline passes along. A stored object identifier is a natural number. A value handed to
  a lookup by identifier is such an identifier or a value that does not cast to one.
  Timestamps, and the fields the pipeline neither reads nor writes, are not modelled.
\<close>

datatype error = Error string | CastError string | ValidationError string

datatype ticket_id = ObjectId nat | Malformed string

text \<open>
  The ticket schema. \<open>agentSuggestion\<close> is the path the schema declares for the
  suggestion; the \<open>agentSuggestionId\<close> the triage service assigns is not a path of the
  schema, so the assignment stores nothing.
\<close>

record ticket =
  t_title :: string
  t_description :: string
  t_category :: string
  t_status :: string
  t_createdBy :: "nat option"
  t_agentSuggestion :: "nat option"

record suggestion =
  sg_id :: nat
  sg_ticketId :: nat
  sg_predictedCategory :: string
  sg_articleIds :: "nat list"
  sg_draftReply :: string
  sg_citations :: "nat list"
  sg_confidence :: rat
  sg_autoClosed :: bool
  sg_latencyMs :: nat
  sg_stub :: bool

datatype meta =
    MPlan "string list"
  | MClassified classification
  | MRetrieved "nat list"
  | MDraft "nat list" nat
  | MDecision jsval jsval rat string
  | MFinal nat
  | MError string

record audit_entry =
  ae_ticketId :: nat
  ae_traceId :: string
  ae_actor :: string
  ae_action :: string
  ae_resourceType :: "string option"
  ae_meta :: meta

record db =
  tickets :: "(nat \<times> ticket) list"
  articles :: "article list"
  configs :: "(string \<times> jsval) list"
  suggestions :: "suggestion list"
  auditlogs :: "audit_entry list"

text \<open>
  \<open>AuditLog.create\<close> (models/AuditLog.js): the validators of the schema, then the
  insertion. The trace identifier, the actor, the action and the resource type are
  required, and the last three are enumerations.
\<close>

definition auditlog_actions :: "string list" where
  "auditlog_actions =
     [''TICKET_CREATED'', ''TICKET_UPDATED'', ''TICKET_STATUS_CHANGED'', ''TICKET_ASSIGNED'',
      ''TICKET_REPLIED'', ''TICKET_CLOSED'', ''TICKET_REOPENED'',
      ''AGENT_TRIAGE_STARTED'', ''AGENT_CLASSIFIED'', ''KB_RETRIEVED'', ''DRAFT_GENERATED'',
      ''AUTO_CLOSED'', ''ASSIGNED_TO_HUMAN'', ''AGENT_WORKFLOW_COMPLETED'',
      ''AGENT_WORKFLOW_FAILED'',
      ''KB_ARTICLE_CREATED'', ''KB_ARTICLE_UPDATED'', ''KB_ARTICLE_DELETED'',
      ''KB_ARTICLE_PUBLISHED'', ''KB_ARTICLE_ARCHIVED'',
      ''USER_REGISTERED'', ''USER_LOGGED_IN'', ''USER_LOGGED_OUT'', ''USER_PROFILE_UPDATED'',
      ''USER_ROLE_CHANGED'',
      ''SYSTEM_CONFIG_UPDATED'', ''SYSTEM_BACKUP_CREATED'', ''SYSTEM_MAINTENANCE'',
      ''SLA_BREACHED'', ''SLA_WARNING'']"

definition auditlog_valid :: "audit_entry \<Rightarrow> bool" where
  "auditlog_valid entry =
     (ae_traceId entry \<noteq> []
      \<and> ae_actor entry \<in> set [''system'', ''agent'', ''user'', ''admin'']
      \<and> ae_action entry \<in> set auditlog_actions
      \<and> (case ae_resourceType entry of
            None \<Rightarrow> False
          | Some r \<Rightarrow> r \<in> set [''ticket'', ''article'', ''user'', ''system'', ''agent'']))"

definition AuditLog_create :: "db \<Rightarrow> audit_entry \<Rightarrow> error + db" where
  "AuditLog_create d entry =
     (if auditlog_valid entry then Inr (d\<lparr>auditlogs := auditlogs d @ [entry]\<rparr>)
      else Inl (ValidationError ''AuditLog''))"

text \<open>
  \<open>AgentSuggestion.create\<close>: the validators of the schema (the category enumeration, the
  required non-empty draft reply, the confidence between 0 and 1), then the insertion,
  which assigns the identifier.
\<close>

definition suggestion_valid :: "suggestion \<Rightarrow> bool" where
  "suggestion_valid s =
     (sg_predictedCategory s \<in> set [''billing'', ''tech'', ''shipping'', ''other'']
      \<and> sg_draftReply s \<noteq> [] \<and> 0 \<le> sg_confidence s \<and> sg_confidence s \<le> 1)"

definition AgentSuggestion_create :: "db \<Rightarrow> suggestion \<Rightarrow> error + (db \<times> suggestion)" where
  "AgentSuggestion_create d s =
     (if suggestion_valid s
      then (let s' = s\<lparr>sg_id := length (suggestions d)\<rparr>
            in Inr (d\<lparr>suggestions := suggestions d @ [s']\<rparr>, s'))
      else Inl (ValidationError ''AgentSuggestion''))"

text \<open>
  \<open>Ticket.findById\<close>: a value that does not cast to an identifier makes the query
  fail with a cast error; an identifier yields the document with its \<open>_id\<close>, or
  \<open>null\<close>.
\<close>

definition Ticket_findById :: "db \<Rightarrow> ticket_id \<Rightarrow> error + (nat \<times> ticket) option" where
  "Ticket_findById d tid =
     (case tid of
        Malformed v \<Rightarrow> Inl (CastError ''_id'')
      | ObjectId n \<Rightarrow> Inr (map_option (\<lambda>t. (n, t)) (map_of (tickets d) n)))"

text \<open>
  \<open>ticket.save()\<close>: the validators of the required paths and of the modified paths
  (title with 5 to 200 code units, description with 10 to 5000, a creator, the category and
  status enumerations), then the update of the stored document.
\<close>

definition ticket_valid :: "unicode \<Rightarrow> ticket \<Rightarrow> bool" where
  "ticket_valid U t =
     (5 \<le> js_length U (t_title t) \<and> js_length U (t_title t) \<le> 200
      \<and> 10 \<le> js_length U (t_description t) \<and> js_length U (t_description t) \<le> 5000
      \<and> t_createdBy t \<noteq> None
      \<and> t_category t \<in> set [''billing'', ''tech'', ''shipping'', ''other'']
      \<and> t_status t \<in> set [''open'', ''triaged'', ''waiting_human'', ''resolved'', ''closed''])"

definition Ticket_save :: "unicode \<Rightarrow> db \<Rightarrow> nat \<Rightarrow> ticket \<Rightarrow> error + db" where
  "Ticket_save U d n t =
     (if ticket_valid U t then Inr (d\<lparr>tickets := AList.update n t (tickets d)\<rparr>)
      else Inl (ValidationError ''Ticket''))"

section \<open>The triage pipeline (services/triageService.js)\<close>

text \<open>
  The service is the second file of the source listing kbSearch.js (lines 21 to 83), the
  one the routes call. What it takes from its surroundings is collected in an environment:
  the value \<open>uuid()\<close> returns, the measured drafting latency, the provider's stub flag,
  and whether the configuration store rejects a lookup.
\<close>

record env =
  uuid :: string
  latencyMs :: nat
  isStub :: bool
  config_rejects :: bool

text \<open>
  \<open>log(ticketId, traceId, action, meta)\<close> with the default actor \<open>'system'\<close>: the
  object it hands to \<open>AuditLog.create\<close> has no resource type.
\<close>

definition log :: "db \<Rightarrow> nat \<Rightarrow> string \<Rightarrow> string \<Rightarrow> meta \<Rightarrow> error + db" where
  "log d ticketId traceId action m =
     AuditLog_create d
       \<lparr>ae_ticketId = ticketId, ae_traceId = traceId, ae_actor = ''system'',
        ae_action = action, ae_resourceType = None, ae_meta = m\<rparr>"

text \<open>
  \<open>getFlag(key, fallback)\<close>: a rejected lookup is caught and becomes \<open>null\<close>; a found
  entry yields its value, whatever the value is.
\<close>

definition getFlag :: "env \<Rightarrow> db \<Rightarrow> string \<Rightarrow> jsval \<Rightarrow> jsval" where
  "getFlag e d key fallback =
     (let cfg = (if config_rejects e then None else map_of (configs d) key)
      in case cfg of None \<Rightarrow> fallback | Some v \<Rightarrow> v)"

text \<open>Lines 58 to 60 of the service: the two flags and the decision from a confidence.\<close>

definition triage_decision :: "env \<Rightarrow> db \<Rightarrow> rat \<Rightarrow> string" where
  "triage_decision e d conf =
     (let autoClose = getFlag e d ''autoCloseEnabled'' (JBool True);
          threshold = getFlag e d ''confidenceThreshold'' (JNum (78 / 100))
      in decision_expr autoClose conf threshold)"

record triage_result =
  r_traceId :: string
  r_suggestionId :: nat
  r_decision :: string

text \<open>
  \<open>triageTicket(ticketId, options)\<close>. The last argument is \<open>options.traceId\<close>
  (\<open>None\<close> when absent). The result pairs the database as the run leaves it with the
  returned value, or with the exception that ended the run.
\<close>

definition triageTicket ::
  "unicode \<Rightarrow> env \<Rightarrow> db \<Rightarrow> ticket_id \<Rightarrow> string option \<Rightarrow> db \<times> (error + triage_result)" where
  "triageTicket U e d0 ticketId opt_traceId =
     (let traceId = (case opt_traceId of None \<Rightarrow> uuid e
                     | Some s \<Rightarrow> (if s = [] then uuid e else s))
      in (case Ticket_findById d0 ticketId of
        Inl err \<Rightarrow> (d0, Inl err)
      | Inr None \<Rightarrow> (d0, Inl (Error ''Ticket not found''))
      | Inr (Some (tid, ticket)) \<Rightarrow>
      (case log d0 tid traceId ''AGENT_PLAN''
              (MPlan [''classify'', ''retrieve'', ''draft'', ''decision'']) of
        Inl err \<Rightarrow> (d0, Inl err)
      | Inr d1 \<Rightarrow>
      (let cls = classify U (Some (t_title ticket @ [CHR 0x0A, CHR 0x0A] @ t_description ticket))
      in (case log d1 tid traceId ''AGENT_CLASSIFIED'' (MClassified cls) of
        Inl err \<Rightarrow> (d1, Inl err)
      | Inr d2 \<Rightarrow>
      (let query = (if t_description ticket = [] then t_title ticket else t_description ticket);
          arts = searchTop U (articles d2) (Some query) 3
      in (case log d2 tid traceId ''KB_RETRIEVED'' (MRetrieved (map a_id arts)) of
        Inl err \<Rightarrow> (d2, Inl err)
      | Inr d3 \<Rightarrow>
      (let drafted = draft query arts;
          latency = latencyMs e
      in (case log d3 tid traceId ''DRAFT_GENERATED''
                (MDraft (citations drafted) latency) of
        Inl err \<Rightarrow> (d3, Inl err)
      | Inr d4 \<Rightarrow>
      (let autoClose = getFlag e d4 ''autoCloseEnabled'' (JBool True);
          threshold = getFlag e d4 ''confidenceThreshold'' (JNum (78 / 100));
          decision = decision_expr autoClose (confidence cls) threshold
      in (case log d4 tid traceId ''DECISION_MADE''
                (MDecision autoClose threshold (confidence cls) decision) of
        Inl err \<Rightarrow> (d4, Inl err)
      | Inr d5 \<Rightarrow>
      (case AgentSuggestion_create d5
              \<lparr>sg_id = 0, sg_ticketId = tid,
               sg_predictedCategory = predictedCategory cls,
               sg_articleIds = map a_id arts,
               sg_draftReply = draftReply drafted,
               sg_citations = citations drafted,
               sg_confidence = confidence cls,
               sg_autoClosed = (decision = ''auto_close''),
               sg_latencyMs = latency, sg_stub = isStub e\<rparr> of
        Inl err \<Rightarrow> (d5, Inl err)
      | Inr (d6, suggestion) \<Rightarrow>
      (let ticket' = ticket\<lparr>t_category := predictedCategory cls,
                           t_status := (if decision = ''auto_close'' then ''resolved''
                                        else ''waiting_human'')\<rparr>
      in (case Ticket_save U d6 tid ticket' of
        Inl err \<Rightarrow> (d6, Inl err)
      | Inr d7 \<Rightarrow>
      (case log d7 tid traceId
                (if decision = ''auto_close'' then ''AUTO_CLOSED'' else ''ASSIGNED_TO_HUMAN'')
                (MFinal (sg_id suggestion)) of
        Inl err \<Rightarrow> (d7, Inl err)
      | Inr d8 \<Rightarrow>
          (d8, Inr \<lparr>r_traceId = traceId, r_suggestionId = sg_id suggestion,
                    r_decision = decision\<rparr>))))))))))))))))"

text \<open>
  The configuration store completed by the documented defaults: an entry of the store
  comes first in a lookup, a default is found only when the key is absent.
\<close>

definition with_defaults :: "db \<Rightarrow> db" where
  "with_defaults d =
     d\<lparr>configs := configs d @ [(''autoCloseEnabled'', JBool True),
                                (''confidenceThreshold'', JNum (78 / 100))]\<rparr>"

section \<open>Example data\<close>

text \<open>
  The end-to-end scenario of the specification: one open ticket about a double charge, a
  small collection of articles of which one published billing article quotes the ticket's
  description, auto-close enabled with threshold \<open>0.5\<close>. All of its text is ASCII, so
  the tables are never consulted on it; the ones given here change nothing.
\<close>

definition demo_unicode :: unicode where
  "demo_unicode = \<lparr>u_toLowerCase = (\<lambda>s. s), u_trim = (\<lambda>s. s), u_length = length,
                   u_regs_test = (\<lambda>q s. False), u_store_regex = (\<lambda>q s. False)\<rparr>"

definition demo_articles :: "article list" where
  "demo_articles =
     [\<lparr>a_id = 10, a_title = ''Refunds for duplicate charges'',
       a_body = Some ''If you write: I was charged twice, please refund - we refund within 5 days.'',
       a_tags = Some [''billing'', ''refund''], a_status = ''published''\<rparr>,
      \<lparr>a_id = 11, a_title = ''How to request a refund'',
       a_body = Some ''Open the order and press the button.'',
       a_tags = Some [''billing''], a_status = ''published''\<rparr>,
      \<lparr>a_id = 12, a_title = ''Card declined'',
       a_body = Some ''A refund to a declined card is sent back to the bank.'',
       a_tags = Some [''refund policy''], a_status = ''published''\<rparr>,
      \<lparr>a_id = 13, a_title = ''Refund timelines'',
       a_body = Some ''Five days.'', a_tags = None, a_status = ''published''\<rparr>,
      \<lparr>a_id = 14, a_title = ''Refund draft'',
       a_body = Some ''Not published yet.'', a_tags = None, a_status = ''draft''\<rparr>]"

definition demo_db :: db where
  "demo_db =
     \<lparr>tickets = [(1, \<lparr>t_title = ''Refund needed'',
                       t_description = ''I was charged twice, please refund'',
                       t_category = ''other'', t_status = ''open'',
                       t_createdBy = Some 7, t_agentSuggestion = None\<rparr>)],
      articles = demo_articles,
      configs = [(''autoCloseEnabled'', JBool True), (''confidenceThreshold'', JNum (1 / 2))],
      suggestions = [],
      auditlogs = []\<rparr>"

definition demo_env :: env where
  "demo_env = \<lparr>uuid = ''trace-0001'', latencyMs = 2, isStub = True, config_rejects = False\<rparr>"

section \<open>Verified properties of the classifier and the drafter\<close>

lemma hits_foldl:
  "foldl (\<lambda>a w. a + (if str_includes t w then 1 else 0)) (n::nat) ws
     = n + length (filter (str_includes t) ws)"
  by (induction ws arbitrary: n) auto

lemma hits_filter: "hits t ws = length (filter (str_includes t) ws)"
  by (simp add: hits_def hits_foldl)

text \<open>The loop over the three heuristics, unrolled: a later category replaces an earlier
  one only with strictly more hits.\<close>

lemma best_heuristic_explicit:
  "best_heuristic t =
     (let b = hits t billing_words; k = hits t tech_words; s = hits t shipping_words in
      if b = 0 \<and> k = 0 \<and> s = 0 then \<lparr>bcat = ''other'', score = 0\<rparr>
      else if k \<le> b \<and> s \<le> b then \<lparr>bcat = ''billing'', score = b\<rparr>
      else if s \<le> k then \<lparr>bcat = ''tech'', score = k\<rparr>
      else \<lparr>bcat = ''shipping'', score = s\<rparr>)"
  by (auto simp: best_heuristic_def heuristics_def consider_heuristic_def Let_def)

lemma best_score_max:
  "score (best_heuristic t)
     = max (hits t billing_words) (max (hits t tech_words) (hits t shipping_words))"
  by (auto simp: best_heuristic_explicit Let_def)

lemma toFixed2_round: "toFixed2 x = round_2dp x"
  by (simp add: toFixed2_def round_2dp_def round_def)

lemma confidence_policy:
  "confidence (classify U text) = policy_a (score (best_heuristic (lowered U text)))"
  by (simp add: classify_def Let_def policy_a_def toFixed2_round num_or_def)

text \<open>On ASCII text the lower-casing does not consult the tables.\<close>

lemma toLowerCase_ascii: "is_ascii s \<Longrightarrow> toLowerCase U s = map ascii_lower s"
  by (simp add: toLowerCase_def)

lemma classify_refund_payment:
  "classify U (Some ''I need a refund for my payment'')
     = \<lparr>predictedCategory = ''billing'', confidence = 67 / 100\<rparr>"
proof -
  have a: "is_ascii ''I need a refund for my payment''"
    by code_simp
  have l: "map ascii_lower ''I need a refund for my payment'' = ''i need a refund for my payment''"
    by code_simp
  have b: "best_heuristic ''i need a refund for my payment'' = \<lparr>bcat = ''billing'', score = 2\<rparr>"
    by code_simp
  have c: "toFixed2 (min 1 (num_or (of_nat 2 / 3) (4 / 10))) = 67 / 100"
    by code_simp
  have "lowered U (Some ''I need a refund for my payment'') = ''i need a refund for my payment''"
    using toLowerCase_ascii[OF a, of U] by (simp only: lowered_def option.case l)
  then show ?thesis
    by (simp only: classify_def Let_def b c best.simps)
qed

lemma classify_empty:
  "classify U (Some '''') = \<lparr>predictedCategory = ''other'', confidence = 4 / 10\<rparr>"
proof -
  have b: "best_heuristic [] = \<lparr>bcat = ''other'', score = 0\<rparr>"
    by code_simp
  have c: "toFixed2 (min 1 (num_or (of_nat 0 / 3) (4 / 10))) = 4 / 10"
    by code_simp
  have "lowered U (Some []) = []"
    by (simp add: lowered_def toLowerCase_def is_ascii_def)
  then show ?thesis
    by (simp only: classify_def Let_def b c best.simps)
qed

text \<open>
  Claim C3. The confidence \<open>classify\<close> returns is policy (a) applied to the hit count of
  the winning category, which is the largest of the three hit counts: \<open>min(1, hits/3)\<close>,
  \<open>0.4\<close> when there is no hit, rounded to two decimals. For the text
  "I need a refund for my payment" the result is the category billing with confidence
  \<open>0.67\<close>, which is greater than \<open>0.5\<close>.
\<close>

theorem classify_confidence_policy_a:
  "confidence (classify U text) =
     policy_a (max (hits (lowered U text) billing_words)
                 (max (hits (lowered U text) tech_words) (hits (lowered U text) shipping_words)))
   \<and> classify U (Some ''I need a refund for my payment'')
       = \<lparr>predictedCategory = ''billing'', confidence = 67 / 100\<rparr>
   \<and> (1 / 2 :: rat) < 67 / 100"
  by (simp add: confidence_policy best_score_max classify_refund_payment)

text \<open>
  Claim C4. With \<open>b\<close>, \<open>k\<close>, \<open>s\<close> the hit counts of billing, tech and shipping on the
  lower-cased text: the category returned is the one with the most hits, billing winning
  every tie it takes part in and tech winning a tie with shipping (the order in which the
  categories are declared); it is \<open>other\<close> exactly when all three counts are zero. A hit
  count is the number of keywords of the category that occur in the text, and no keyword is
  listed twice, so a keyword counts once however often it occurs.
\<close>

theorem classify_category_selection:
  "(let t = lowered U text;
        b = hits t billing_words; k = hits t tech_words; s = hits t shipping_words
    in predictedCategory (classify U text) =
         (if b = 0 \<and> k = 0 \<and> s = 0 then ''other''
          else if k \<le> b \<and> s \<le> b then ''billing''
          else if s \<le> k then ''tech''
          else ''shipping'')
       \<and> (predictedCategory (classify U text) = ''other'') = (b = 0 \<and> k = 0 \<and> s = 0)
       \<and> b = length (filter (str_includes t) billing_words)
       \<and> k = length (filter (str_includes t) tech_words)
       \<and> s = length (filter (str_includes t) shipping_words))
   \<and> distinct billing_words \<and> distinct tech_words \<and> distinct shipping_words
   \<and> map cat heuristics = [''billing'', ''tech'', ''shipping'']"
proof -
  have sel: "predictedCategory (classify U text) = bcat (best_heuristic (lowered U text))"
    by (simp add: classify_def Let_def)
  have d: "distinct billing_words \<and> distinct tech_words \<and> distinct shipping_words"
    by (simp add: billing_words_def tech_words_def shipping_words_def)
  have h: "map cat heuristics = [''billing'', ''tech'', ''shipping'']"
    by (simp add: heuristics_def)
  show ?thesis
    unfolding Let_def sel
    using d h by (simp add: best_heuristic_explicit Let_def hits_filter)
qed

text \<open>
  Claim C9. \<open>classify("")\<close> returns the category \<open>other\<close> (with confidence \<open>0.4\<close>), and a
  \<open>null\<close> or \<open>undefined\<close> argument gives the same result as the empty string. The
  function has a result for every argument: no branch of it raises.
\<close>

theorem classify_empty_other:
  "classify U (Some '''') = \<lparr>predictedCategory = ''other'', confidence = 4 / 10\<rparr>
   \<and> classify U None = classify U (Some '''')"
proof -
  have "classify U None = classify U (Some '''')"
    by (simp add: classify_def lowered_def)
  then show ?thesis by (simp add: classify_empty)
qed

text \<open>
  Claim C10. The drafter does not look at the query text: two calls with the same
  articles return the same reply and the same citations, whatever the two query texts are,
  and the citations are the identifiers of the articles in the order given.
\<close>

theorem draft_ignores_query:
  "draft q1 as = draft q2 as \<and> citations (draft q1 as) = map a_id as"
  by (simp add: draft_def Let_def)

section \<open>Verified properties of the search\<close>

lemma insert_by_insort:
  "insert_by (\<lambda>a b. f b - f a) x ys = insort_key (\<lambda>a. - f a) x ys"
  by (induction ys) auto

lemma js_sort_sort_key:
  "js_sort (\<lambda>a b. f b - f a) xs = sort_key (\<lambda>a. - (f a :: rat)) xs"
  by (induction xs) (auto simp: js_sort_def sort_key_def insert_by_insort)

lemma insert_by_map:
  "insert_by (\<lambda>a b. f b - f a) (g x) (map g ys)
     = map g (insert_by (\<lambda>a b. f (g b) - f (g a)) x ys)"
  by (induction ys) auto

lemma js_sort_map:
  "js_sort (\<lambda>a b. f b - f a) (map g xs) = map g (js_sort (\<lambda>a b. f (g b) - f (g a)) xs)"
  by (induction xs) (auto simp: js_sort_def insert_by_map)

lemma slice0_map: "slice0 (map g xs) n = map g (slice0 xs n)"
  by (simp add: slice0_def take_map)

lemma s_article_score_article: "s_article (score_article U q a) = a"
  by (simp add: score_article_def Let_def)

text \<open>The search returns the first elements of the ranking of the candidates.\<close>

lemma searchTop_ranking:
  "searchTop U coll query n =
     (if query_text U query = [] then []
      else slice0 (ranked U (query_text U query)
                    (find_published U coll (query_text U query))) n)"
proof (cases query)
  case None
  then show ?thesis by (simp add: searchTop_def query_text_def trim_def is_ascii_def)
next
  case (Some qs)
  show ?thesis
  proof (cases "trim U qs = []")
    case True
    then show ?thesis using Some by (simp add: searchTop_def query_text_def)
  next
    case False
    have un: "map s_article (map (score_article U (trim U qs)) xs) = xs" for xs
      by (induction xs) (simp_all add: s_article_score_article)
    have "searchTop U coll query n =
            map s_article (slice0 (js_sort (\<lambda>a b. s_score b - s_score a)
               (map (score_article U (trim U qs)) (find_published U coll (trim U qs)))) n)"
    proof (cases "qs = []")
      case True
      then have "trim U qs = []" by (simp add: trim_def is_ascii_def)
      with False show ?thesis by simp
    next
      case ne: False
      then show ?thesis using Some False by (simp add: searchTop_def Let_def)
    qed
    also have "\<dots> = map s_article (map (score_article U (trim U qs))
                 (slice0 (js_sort (\<lambda>a b. article_score U (trim U qs) b
                                          - article_score U (trim U qs) a)
                    (find_published U coll (trim U qs))) n))"
      by (simp only: js_sort_map slice0_map article_score_def)
    also have "\<dots> = slice0 (ranked U (trim U qs) (find_published U coll (trim U qs))) n"
      by (simp only: un js_sort_sort_key ranked_def)
    finally show ?thesis using Some False by (simp add: query_text_def)
  qed
qed

lemma slice0_prefix: "prefix (slice0 xs n) xs"
  by (simp add: slice0_def take_is_prefix)

lemma filter_prefix: "prefix xs ys \<Longrightarrow> prefix (filter P xs) (filter P ys)"
  by (auto simp: prefix_def)

lemma sorted_prefix_desc:
  "prefix xs ys \<Longrightarrow> sorted (map (\<lambda>a. - (f a :: rat)) ys)
     \<Longrightarrow> sorted_wrt (\<lambda>a b. f b \<le> f a) xs"
  by (auto simp: prefix_def sorted_append sorted_map sorted_wrt_append
           intro: sorted_wrt_mono_rel[rotated])

lemma ranked_sorted:
  "sorted_wrt (\<lambda>a b. article_score U q b \<le> article_score U q a) (ranked U q cs)"
  by (rule sorted_prefix_desc[of _ "ranked U q cs"]) (simp_all add: ranked_def)

lemma ranked_stable:
  "filter (\<lambda>a. article_score U q a = k) (ranked U q cs)
     = filter (\<lambda>a. article_score U q a = k) cs"
proof -
  have "filter (\<lambda>a. - article_score U q a = - k) (sort_key (\<lambda>a. - article_score U q a) cs)
          = filter (\<lambda>a. - article_score U q a = - k) cs"
    by (rule sort_key_stable)
  then show ?thesis by (simp add: ranked_def)
qed

text \<open>
  Claim C7. The candidates are the published articles the query matches, in the order of
  the collection. Their ranking is sorted by falling score, holds every candidate exactly
  as often as the candidates do, and holds the articles of any one score \<open>k\<close> in the order
  they have among the candidates (the sort is stable); these three facts determine it. The
  result of the search is the ranking cut by \<open>slice(0, n)\<close> (and empty for a query that
  trims to nothing), so it is sorted by falling score as well and keeps the candidates'
  order within a score. The score of an article is 2 for a match in the title, plus 1 for a
  match in a tag, plus 0.5 for a match in the body.
\<close>

theorem searchTop_sorted_stable:
  "(let q = query_text U query;
        candidates = find_published U coll q;
        r = ranked U q candidates;
        out = searchTop U coll query n
    in out = (if q = [] then [] else slice0 r n)
       \<and> sorted_wrt (\<lambda>a b. article_score U q b \<le> article_score U q a) r
       \<and> filter (\<lambda>a. article_score U q a = k) r
           = filter (\<lambda>a. article_score U q a = k) candidates
       \<and> mset r = mset candidates
       \<and> sorted_wrt (\<lambda>a b. article_score U q b \<le> article_score U q a) out
       \<and> prefix (filter (\<lambda>a. article_score U q a = k) out)
                (filter (\<lambda>a. article_score U q a = k) candidates)
       \<and> set out \<subseteq> set candidates)
   \<and> article_score U q a =
        (if regs_test U q (a_title a) then 2 else 0)
        + (if list_ex (regs_test U q) (case a_tags a of None \<Rightarrow> [] | Some ts \<Rightarrow> ts)
           then 1 else 0)
        + (if regs_test U q (case a_body a of None \<Rightarrow> [] | Some b \<Rightarrow> b) then 1 / 2 else 0)"
proof -
  let ?q = "query_text U query"
  let ?f = "article_score U ?q"
  let ?c = "find_published U coll ?q"
  let ?r = "ranked U ?q ?c"
  let ?out = "searchTop U coll query n"
  have o: "?out = (if ?q = [] then [] else slice0 ?r n)"
    by (rule searchTop_ranking)
  have pre: "prefix ?out ?r"
    by (simp add: o slice0_prefix)
  have rs: "sorted_wrt (\<lambda>a b. ?f b \<le> ?f a) ?r"
    by (rule ranked_sorted)
  have rst: "filter (\<lambda>a. ?f a = k) ?r = filter (\<lambda>a. ?f a = k) ?c"
    by (rule ranked_stable)
  have rm: "mset ?r = mset ?c"
    by (simp add: ranked_def)
  have s: "sorted_wrt (\<lambda>a b. ?f b \<le> ?f a) ?out"
    using pre by (rule sorted_prefix_desc) (simp add: ranked_def)
  have p: "prefix (filter (\<lambda>a. ?f a = k) ?out) (filter (\<lambda>a. ?f a = k) ?c)"
    using filter_prefix[OF pre, of "\<lambda>a. ?f a = k"] rst by simp
  have m: "set ?out \<subseteq> set ?c"
    using set_mono_prefix[OF pre] by (simp add: ranked_def)
  have w: "article_score U q a =
        (if regs_test U q (a_title a) then 2 else 0)
        + (if list_ex (regs_test U q) (case a_tags a of None \<Rightarrow> [] | Some ts \<Rightarrow> ts)
           then 1 else 0)
        + (if regs_test U q (case a_body a of None \<Rightarrow> [] | Some b \<Rightarrow> b) then 1 / 2 else 0)"
    by (simp add: article_score_def score_article_def Let_def)
  show ?thesis
    unfolding Let_def using o rs rst rm s p m w by blast
qed

theorem searchTop_sorted_stable_witness:
  "map a_id (find_published demo_unicode demo_articles ''refund'') = [10, 11, 12, 13]
   \<and> map (article_score demo_unicode ''refund'')
         (find_published demo_unicode demo_articles ''refund'') = [7 / 2, 2, 3 / 2, 2]
   \<and> map a_id (ranked demo_unicode ''refund''
                  (find_published demo_unicode demo_articles ''refund'')) = [10, 11, 13, 12]
   \<and> map a_id (searchTop demo_unicode demo_articles (Some '' refund '') 3) = [10, 11, 13]"
proof -
  have q: "query_text demo_unicode (Some '' refund '') = ''refund''"
    by code_simp
  have c: "map a_id (find_published demo_unicode demo_articles ''refund'') = [10, 11, 12, 13]"
    by code_simp
  have sc: "map (article_score demo_unicode ''refund'')
         (find_published demo_unicode demo_articles ''refund'') = [7 / 2, 2, 3 / 2, 2]"
    by code_simp
  have r: "map a_id (ranked demo_unicode ''refund''
                  (find_published demo_unicode demo_articles ''refund'')) = [10, 11, 13, 12]"
    by code_simp
  have "searchTop demo_unicode demo_articles (Some '' refund '') 3
          = slice0 (ranked demo_unicode ''refund''
                      (find_published demo_unicode demo_articles ''refund'')) 3"
    using searchTop_sorted_stable[where U = demo_unicode and query = "Some '' refund ''"
            and coll = demo_articles and n = 3 and k = 2 and q = "''refund''"
            and a = "hd demo_articles"]
    by (simp add: Let_def q)
  then have "map a_id (searchTop demo_unicode demo_articles (Some '' refund '') 3)
          = take 3 (map a_id (ranked demo_unicode ''refund''
                      (find_published demo_unicode demo_articles ''refund'')))"
    by (simp add: slice0_def take_map)
  then show ?thesis using c sc r by simp
qed

text \<open>
  Claim C8, as the code behaves. For a limit \<open>n \<ge> 0\<close> the search returns at most \<open>n\<close>
  articles; a negative limit is not refused, and \<open>slice(0, n)\<close> then leaves out the last
  \<open>-n\<close> articles of the ranking. For every \<open>n\<close> the search returns the empty sequence
  when the collection is empty, when no published article matches the query, when the
  query is \<open>null\<close>, \<open>undefined\<close> or the empty string, and when it consists of white
  space only, that is, when \<open>trim\<close> leaves nothing of it, as it does of tabs, line breaks
  and spaces.
\<close>

theorem searchTop_limit_and_empty:
  "(0 \<le> n \<longrightarrow> int (length (searchTop U coll query n)) \<le> n)
   \<and> (n < 0 \<and> query_text U query \<noteq> [] \<longrightarrow>
        length (searchTop U coll query n)
          = length (find_published U coll (query_text U query)) - nat (- n))
   \<and> searchTop U [] query n = []
   \<and> (find_published U coll (query_text U query) = [] \<longrightarrow> searchTop U coll query n = [])
   \<and> searchTop U coll None n = []
   \<and> searchTop U coll (Some []) n = []
   \<and> (trim U qs = [] \<longrightarrow> searchTop U coll (Some qs) n = [])
   \<and> (list_all is_space qs \<longrightarrow> trim U qs = [])"
proof -
  have a: "0 \<le> n \<longrightarrow> int (length (searchTop U coll query n)) \<le> n"
    by (auto simp: searchTop_ranking slice0_def min_def)
  have cut: "min L (nat (int L + n)) = L - nat (- n)" if "n < 0" for L :: nat
    using that by arith
  have a': "n < 0 \<and> query_text U query \<noteq> [] \<longrightarrow>
        length (searchTop U coll query n)
          = length (find_published U coll (query_text U query)) - nat (- n)"
    by (simp add: searchTop_ranking slice0_def ranked_def cut)
  have b: "searchTop U [] query n = []"
    by (simp add: searchTop_ranking slice0_def find_published_def ranked_def)
  have c: "find_published U coll (query_text U query) = [] \<longrightarrow> searchTop U coll query n = []"
    by (simp add: searchTop_ranking slice0_def ranked_def)
  have d: "searchTop U coll None n = []" "searchTop U coll (Some []) n = []"
    by (simp_all add: searchTop_def)
  have e: "trim U qs = [] \<longrightarrow> searchTop U coll (Some qs) n = []"
    by (simp add: searchTop_def)
  have f: "list_all is_space qs \<longrightarrow> trim U qs = []"
  proof
    assume sp: "list_all is_space qs"
    then have "is_ascii qs"
      by (induction qs) (auto simp: is_ascii_def is_space_def)
    moreover from sp have "dropWhile is_space qs = []"
      by (induction qs) simp_all
    ultimately show "trim U qs = []"
      by (simp only: trim_def rev.simps dropWhile.simps if_True)
  qed
  show ?thesis using a a' b c d e f by blast
qed

theorem searchTop_limit_and_empty_witness:
  "(0 :: int) \<le> 3
   \<and> length (searchTop demo_unicode demo_articles (Some ''refund'') 3) = 3
   \<and> length (find_published demo_unicode demo_articles ''refund'') = 4
   \<and> (- 2 :: int) < 0 \<and> query_text demo_unicode (Some ''refund'') = ''refund''
   \<and> length (searchTop demo_unicode demo_articles (Some ''refund'') (- 2)) = 2
   \<and> is_space (CHR '' '') \<and> is_space (CHR 0x09)
   \<and> trim demo_unicode [CHR '' '', CHR 0x09, CHR '' ''] = []
   \<and> searchTop demo_unicode demo_articles (Some [CHR '' '', CHR 0x09, CHR '' '']) 3 = []
   \<and> find_published demo_unicode demo_articles (query_text demo_unicode (Some ''zebra'')) = []
   \<and> searchTop demo_unicode demo_articles (Some ''zebra'') 3 = []"
proof -
  have h0: "is_space (CHR '' '')" "is_space (CHR 0x09)"
    by (simp_all add: is_space_def)
  then have h1: "list_all is_space [CHR '' '', CHR 0x09, CHR '' '']"
    by simp
  have h2: "find_published demo_unicode demo_articles (query_text demo_unicode (Some ''zebra'')) = []"
    by code_simp
  have h3: "length (find_published demo_unicode demo_articles ''refund'') = 4"
    by code_simp
  have h4: "3 \<le> length (searchTop demo_unicode demo_articles (Some ''refund'') 3)"
    by code_simp
  have h5: "query_text demo_unicode (Some ''refund'') = ''refund''"
    by code_simp
  show ?thesis
    using h0 h1 h2 h3 h4 h5
      searchTop_limit_and_empty[of 3 demo_unicode demo_articles "Some ''refund''"
                                   "[CHR '' '', CHR 0x09, CHR '' '']"]
      searchTop_limit_and_empty[of "- 2" demo_unicode demo_articles "Some ''refund''"
                                   "[CHR '' '', CHR 0x09, CHR '' '']"]
      searchTop_limit_and_empty[of 3 demo_unicode demo_articles "Some ''zebra''"
                                   "[CHR '' '', CHR 0x09, CHR '' '']"]
    by simp
qed

text \<open>
  The claim as stated bounds the result by every limit. With the limit \<open>-1\<close> the search
  for "refund" in the example collection returns three articles.
\<close>

theorem searchTop_negative_limit_counterexample:
  "length (searchTop demo_unicode demo_articles (Some ''refund'') (- 1)) = 3
   \<and> \<not> (int 3 \<le> - 1)"
proof -
  have "length (searchTop demo_unicode demo_articles (Some ''refund'') (- 1)) = 3"
    by code_simp
  then show ?thesis by simp
qed

section \<open>Verified properties of the triage pipeline\<close>

text \<open>
  The object \<open>log\<close> builds never has a resource type, which the audit schema requires:
  every call of \<open>log\<close> is rejected by the validators.
\<close>

lemma log_rejects: "log d n trace action m = Inl (ValidationError ''AuditLog'')"
  by (simp add: log_def AuditLog_create_def auditlog_valid_def)

lemma triageTicket_cast:
  "Ticket_findById d tid = Inl err \<Longrightarrow> triageTicket U e d tid tr = (d, Inl err)"
  by (simp only: triageTicket_def Let_def sum.case)

lemma triageTicket_missing:
  "Ticket_findById d tid = Inr None \<Longrightarrow>
     triageTicket U e d tid tr = (d, Inl (Error ''Ticket not found''))"
  by (simp only: triageTicket_def Let_def sum.case option.case)

lemma triageTicket_found:
  "Ticket_findById d tid = Inr (Some (n, t)) \<Longrightarrow>
     triageTicket U e d tid tr = (d, Inl (ValidationError ''AuditLog''))"
  by (simp only: triageTicket_def Let_def sum.case option.case prod.case log_rejects)

lemma Ticket_findById_ObjectId:
  "Ticket_findById d (ObjectId n)
     = Inr (case map_of (tickets d) n of None \<Rightarrow> None | Some t \<Rightarrow> Some (n, t))"
  by (simp add: Ticket_findById_def split: option.splits)

text \<open>
  Claim C2. The claim describes the runs that succeed on an existing ticket, six audit
  entries under one trace identifier, one suggestion, the ticket resolved or waiting for a
  human, and the specification gives such a run as its end-to-end scenario. In the code no
  run on an existing ticket succeeds: the first \<open>log\<close> call of the run, like every
  \<open>log\<close> call, is rejected by the validators of the audit schema (the required
  \<open>resourceType\<close> is never passed, and \<open>AGENT_PLAN\<close> and \<open>DECISION_MADE\<close> are not
  among the schema's actions), and the run ends with that validation error, all stores as
  they were. So it is for the ticket of the scenario. The entry
  \<open>AgentService.triageTicket\<close> writes on a failure, which names its resource type, passes
  the same validators.
\<close>

theorem triage_run_rejected_by_audit_schema:
  "triageTicket U e d (ObjectId n) tr
     = (d, Inl (case map_of (tickets d) n of
                  None \<Rightarrow> Error ''Ticket not found''
                | Some t \<Rightarrow> ValidationError ''AuditLog''))
   \<and> log d n trace action m = Inl (ValidationError ''AuditLog'')
   \<and> ''AGENT_PLAN'' \<notin> set auditlog_actions
   \<and> ''DECISION_MADE'' \<notin> set auditlog_actions
   \<and> map_of (tickets demo_db) 1
        = Some \<lparr>t_title = ''Refund needed'',
                t_description = ''I was charged twice, please refund'',
                t_category = ''other'', t_status = ''open'',
                t_createdBy = Some 7, t_agentSuggestion = None\<rparr>
   \<and> triageTicket demo_unicode demo_env demo_db (ObjectId 1) None
        = (demo_db, Inl (ValidationError ''AuditLog''))
   \<and> auditlog_valid \<lparr>ae_ticketId = 1, ae_traceId = ''trace-0001'', ae_actor = ''agent'',
                      ae_action = ''AGENT_WORKFLOW_FAILED'', ae_resourceType = Some ''agent'',
                      ae_meta = MError ''Validation failed''\<rparr>"
proof -
  have run: "triageTicket U e d (ObjectId n) tr
     = (d, Inl (case map_of (tickets d) n of
                  None \<Rightarrow> Error ''Ticket not found''
                | Some t \<Rightarrow> ValidationError ''AuditLog''))" for U e d n tr
  proof (cases "map_of (tickets d) n")
    case None
    then have "Ticket_findById d (ObjectId n) = Inr None"
      by (simp add: Ticket_findById_ObjectId)
    then show ?thesis using None by (simp add: triageTicket_missing)
  next
    case (Some t)
    then have "Ticket_findById d (ObjectId n) = Inr (Some (n, t))"
      by (simp add: Ticket_findById_ObjectId)
    then show ?thesis using Some by (simp add: triageTicket_found)
  qed
  have tk: "map_of (tickets demo_db) 1
        = Some \<lparr>t_title = ''Refund needed'',
                t_description = ''I was charged twice, please refund'',
                t_category = ''other'', t_status = ''open'',
                t_createdBy = Some 7, t_agentSuggestion = None\<rparr>"
    by (simp add: demo_db_def)
  have demo: "triageTicket demo_unicode demo_env demo_db (ObjectId 1) None
        = (demo_db, Inl (ValidationError ''AuditLog''))"
    by (simp only: run tk option.case)
  have acts: "''AGENT_PLAN'' \<notin> set auditlog_actions" "''DECISION_MADE'' \<notin> set auditlog_actions"
    by (simp_all add: auditlog_actions_def)
  have sib: "auditlog_valid \<lparr>ae_ticketId = 1, ae_traceId = ''trace-0001'', ae_actor = ''agent'',
                      ae_action = ''AGENT_WORKFLOW_FAILED'', ae_resourceType = Some ''agent'',
                      ae_meta = MError ''Validation failed''\<rparr>"
    by (simp add: auditlog_valid_def auditlog_actions_def)
  show ?thesis using run log_rejects tk demo acts sib by blast
qed

text \<open>
  Claim C6, as the service behaves. When the ticket identifier resolves to no ticket, the
  run ends with an exception and leaves every store as it was: no suggestion is created, no
  ticket is changed, and no audit entry is written, since the exception is raised before
  the first \<open>log\<close> and nothing catches it. The exception is \<open>Ticket not found\<close> for a
  well-formed identifier of no ticket, and the cast error of the lookup for a value that is
  not a well-formed identifier.
\<close>

theorem triage_unresolved_ticket:
  "(Ticket_findById d tid = Inr None \<longrightarrow>
      triageTicket U e d tid tr = (d, Inl (Error ''Ticket not found'')))
   \<and> (Ticket_findById d tid = Inl err \<longrightarrow> triageTicket U e d tid tr = (d, Inl err))
   \<and> (map_of (tickets d) n = None \<longrightarrow>
        triageTicket U e d (ObjectId n) tr = (d, Inl (Error ''Ticket not found'')))
   \<and> triageTicket U e d (Malformed v) tr = (d, Inl (CastError ''_id''))"
proof -
  have a: "Ticket_findById d tid = Inr None \<longrightarrow>
      triageTicket U e d tid tr = (d, Inl (Error ''Ticket not found''))"
    by (simp add: triageTicket_missing)
  have b: "Ticket_findById d tid = Inl err \<longrightarrow> triageTicket U e d tid tr = (d, Inl err)"
    by (simp add: triageTicket_cast)
  have c: "map_of (tickets d) n = None \<longrightarrow>
        triageTicket U e d (ObjectId n) tr = (d, Inl (Error ''Ticket not found''))"
    by (simp add: triageTicket_missing Ticket_findById_ObjectId)
  have "Ticket_findById d (Malformed v) = Inl (CastError ''_id'')"
    by (simp add: Ticket_findById_def)
  then have d: "triageTicket U e d (Malformed v) tr = (d, Inl (CastError ''_id''))"
    by (rule triageTicket_cast)
  show ?thesis using a b c d by blast
qed

theorem triage_unresolved_ticket_witness:
  "Ticket_findById demo_db (ObjectId 99) = Inr None
   \<and> map_of (tickets demo_db) 99 = None
   \<and> triageTicket demo_unicode demo_env demo_db (ObjectId 99) None
       = (demo_db, Inl (Error ''Ticket not found''))
   \<and> Ticket_findById demo_db (Malformed ''not-an-id'') = Inl (CastError ''_id'')
   \<and> triageTicket demo_unicode demo_env demo_db (Malformed ''not-an-id'') None
       = (demo_db, Inl (CastError ''_id''))"
proof -
  have h1: "Ticket_findById demo_db (ObjectId 99) = Inr None"
    by (simp add: Ticket_findById_def demo_db_def)
  have h2: "map_of (tickets demo_db) 99 = None"
    by (simp add: demo_db_def)
  have h3: "Ticket_findById demo_db (Malformed ''not-an-id'') = Inl (CastError ''_id'')"
    by (simp add: Ticket_findById_def)
  show ?thesis
    using h1 h2 h3
      triage_unresolved_ticket[where d = demo_db and tid = "ObjectId 99" and U = demo_unicode
         and e = demo_env and tr = None and n = 99 and v = "''not-an-id''"
         and err = "CastError ''_id''"]
      triage_unresolved_ticket[where d = demo_db and tid = "Malformed ''not-an-id''"
         and U = demo_unicode and e = demo_env and tr = None and n = 99
         and v = "''not-an-id''" and err = "CastError ''_id''"]
    by simp
qed

text \<open>
  The claim as stated asks for at least one failure audit entry when the audit store is
  reachable. On the example data the run on the unknown ticket 99 leaves the audit log
  empty, although the store accepts a failure entry of the form
  \<open>AgentService.triageTicket\<close> writes.
\<close>

theorem triage_missing_ticket_no_audit_counterexample:
  "snd (triageTicket demo_unicode demo_env demo_db (ObjectId 99) None)
     = Inl (Error ''Ticket not found'')
   \<and> auditlogs (fst (triageTicket demo_unicode demo_env demo_db (ObjectId 99) None)) = []
   \<and> AuditLog_create demo_db
        \<lparr>ae_ticketId = 99, ae_traceId = ''trace-0001'', ae_actor = ''agent'',
         ae_action = ''AGENT_WORKFLOW_FAILED'', ae_resourceType = Some ''agent'',
         ae_meta = MError ''Ticket not found''\<rparr>
       = Inr (demo_db\<lparr>auditlogs :=
               [\<lparr>ae_ticketId = 99, ae_traceId = ''trace-0001'', ae_actor = ''agent'',
                 ae_action = ''AGENT_WORKFLOW_FAILED'', ae_resourceType = Some ''agent'',
                 ae_meta = MError ''Ticket not found''\<rparr>]\<rparr>)"
proof -
  have "Ticket_findById demo_db (ObjectId 99) = Inr None"
    by (simp add: Ticket_findById_def demo_db_def)
  then have r: "triageTicket demo_unicode demo_env demo_db (ObjectId 99) None
                  = (demo_db, Inl (Error ''Ticket not found''))"
    by (rule triageTicket_missing)
  have l: "auditlogs demo_db = []"
    by (simp add: demo_db_def)
  have c: "AuditLog_create demo_db
        \<lparr>ae_ticketId = 99, ae_traceId = ''trace-0001'', ae_actor = ''agent'',
         ae_action = ''AGENT_WORKFLOW_FAILED'', ae_resourceType = Some ''agent'',
         ae_meta = MError ''Ticket not found''\<rparr>
       = Inr (demo_db\<lparr>auditlogs :=
               [\<lparr>ae_ticketId = 99, ae_traceId = ''trace-0001'', ae_actor = ''agent'',
                 ae_action = ''AGENT_WORKFLOW_FAILED'', ae_resourceType = Some ''agent'',
                 ae_meta = MError ''Ticket not found''\<rparr>]\<rparr>)"
    by (simp add: AuditLog_create_def auditlog_valid_def auditlog_actions_def l)
  show ?thesis using r l c by simp
qed

section \<open>Verified properties of the configuration fallbacks and the decision\<close>

lemma getFlag_with_defaults:
  "getFlag e (with_defaults d) ''autoCloseEnabled'' (JBool True)
     = getFlag e d ''autoCloseEnabled'' (JBool True)"
  "getFlag e (with_defaults d) ''confidenceThreshold'' (JNum (78 / 100))
     = getFlag e d ''confidenceThreshold'' (JNum (78 / 100))"
  by (simp_all add: getFlag_def with_defaults_def map_add_def split: option.splits)

lemma getAllAsObject_foldl:
  "(foldl (\<lambda>acc (k, v). acc(k \<mapsto> v)) m cfgs key = None)
     = (m key = None \<and> map_of cfgs key = None)"
proof (induction cfgs arbitrary: m)
  case Nil
  show ?case by simp
next
  case (Cons p cfgs)
  obtain k v where p: "p = (k, v)" by (cases p)
  show ?case
    unfolding p foldl_Cons prod.case Cons.IH
    by (cases "k = key") simp_all
qed

lemma getAllAsObject_None: "getAllAsObject cfgs key = None \<longleftrightarrow> map_of cfgs key = None"
  by (simp add: getAllAsObject_def getAllAsObject_foldl)

lemma triageTicket_with_defaults:
  "triageTicket U e (with_defaults d) tid tr
     = apfst (\<lambda>x. x\<lparr>configs := configs (with_defaults d)\<rparr>) (triageTicket U e d tid tr)"
proof -
  have wd: "with_defaults d = d\<lparr>configs := configs (with_defaults d)\<rparr>"
    by (simp add: with_defaults_def)
  have f: "Ticket_findById (with_defaults d) tid = Ticket_findById d tid"
    by (cases tid) (simp_all add: Ticket_findById_def with_defaults_def)
  show ?thesis
  proof (cases "Ticket_findById d tid")
    case (Inl err)
    then show ?thesis
      using triageTicket_cast[of d tid err U e tr]
            triageTicket_cast[of "with_defaults d" tid err U e tr] f wd
      by simp
  next
    case (Inr found)
    show ?thesis
    proof (cases found)
      case None
      then show ?thesis
        using Inr triageTicket_missing[of d tid U e tr]
              triageTicket_missing[of "with_defaults d" tid U e tr] f wd
        by simp
    next
      case (Some p)
      obtain n t where p: "p = (n, t)" by (cases p)
      show ?thesis
        using Inr Some p triageTicket_found[of d tid n t U e tr]
              triageTicket_found[of "with_defaults d" tid n t U e tr] f wd
        by simp
    qed
  qed
qed

text \<open>
  Claim C5, as the code behaves. In the triage service an absent key, or a rejected
  lookup, makes \<open>getFlag\<close> return the fallback it is given, \<open>true\<close> for
  \<open>autoCloseEnabled\<close> and \<open>0.78\<close> for \<open>confidenceThreshold\<close>, and a run is the same,
  result and stores, as on the configuration completed by these two defaults: a missing key
  never changes whether the run succeeds. The decision of lines 58 to 60 is the same on the
  completed configuration as well, and with both keys absent, or the lookups rejected, it
  is to auto-close exactly from the confidence \<open>0.78\<close> on.
  \<open>AgentService.makeDecision\<close> falls back to \<open>false\<close> for an absent
  \<open>autoCloseEnabled\<close>, so that it never auto-closes then, and to \<open>0.78\<close> for an absent
  \<open>confidenceThreshold\<close>.
\<close>

theorem config_fallbacks:
  "(map_of (configs d) key = None \<or> config_rejects e \<longrightarrow> getFlag e d key fallback = fallback)
   \<and> triageTicket U e (with_defaults d) tid tr
       = apfst (\<lambda>x. x\<lparr>configs := configs (with_defaults d)\<rparr>) (triageTicket U e d tid tr)
   \<and> (map_of cfgs ''autoCloseEnabled'' = None \<longrightarrow> makeDecision cfgs c = False)
   \<and> (getAllAsObject cfgs ''autoCloseEnabled'' = Some (JBool True)
        \<and> map_of cfgs ''confidenceThreshold'' = None
      \<longrightarrow> makeDecision cfgs c = (78 / 100 \<le> c))
   \<and> triage_decision e (with_defaults d) c = triage_decision e d c
   \<and> ((map_of (configs d) ''autoCloseEnabled'' = None
         \<and> map_of (configs d) ''confidenceThreshold'' = None) \<or> config_rejects e
      \<longrightarrow> triage_decision e d c = (if 78 / 100 \<le> c then ''auto_close'' else ''human''))"
proof -
  have a: "map_of (configs d) key = None \<or> config_rejects e
             \<longrightarrow> getFlag e d key fallback = fallback"
    by (auto simp: getFlag_def)
  have b: "triageTicket U e (with_defaults d) tid tr
       = apfst (\<lambda>x. x\<lparr>configs := configs (with_defaults d)\<rparr>) (triageTicket U e d tid tr)"
    by (rule triageTicket_with_defaults)
  have c: "map_of cfgs ''autoCloseEnabled'' = None \<longrightarrow> makeDecision cfgs c = False"
  proof
    assume "map_of cfgs ''autoCloseEnabled'' = None"
    then have "getAllAsObject cfgs ''autoCloseEnabled'' = None"
      by (simp add: getAllAsObject_None)
    then show "makeDecision cfgs c = False"
      by (simp add: makeDecision_def Let_def js_or_def)
  qed
  have d: "getAllAsObject cfgs ''autoCloseEnabled'' = Some (JBool True)
        \<and> map_of cfgs ''confidenceThreshold'' = None
      \<longrightarrow> makeDecision cfgs c = (78 / 100 \<le> c)"
  proof
    assume h: "getAllAsObject cfgs ''autoCloseEnabled'' = Some (JBool True)
        \<and> map_of cfgs ''confidenceThreshold'' = None"
    then have "getAllAsObject cfgs ''confidenceThreshold'' = None"
      by (simp add: getAllAsObject_None)
    with h show "makeDecision cfgs c = (78 / 100 \<le> c)"
      by (simp add: makeDecision_def Let_def js_or_def)
  qed
  have e: "triage_decision e (with_defaults d) c = triage_decision e d c"
    by (simp only: triage_decision_def getFlag_with_defaults)
  have f: "(map_of (configs d) ''autoCloseEnabled'' = None
         \<and> map_of (configs d) ''confidenceThreshold'' = None) \<or> config_rejects e
      \<longrightarrow> triage_decision e d c = (if 78 / 100 \<le> c then ''auto_close'' else ''human'')"
    by (auto simp: triage_decision_def getFlag_def decision_expr_def)
  show ?thesis using a b c d e f by blast
qed

theorem config_fallbacks_witness:
  "map_of (configs (demo_db\<lparr>configs := []\<rparr>)) ''autoCloseEnabled'' = None
   \<and> map_of (configs (demo_db\<lparr>configs := []\<rparr>)) ''confidenceThreshold'' = None
   \<and> getFlag demo_env (demo_db\<lparr>configs := []\<rparr>) ''autoCloseEnabled'' (JBool True) = JBool True
   \<and> triage_decision demo_env (demo_db\<lparr>configs := []\<rparr>) (9 / 10) = ''auto_close''
   \<and> map_of [] ''autoCloseEnabled'' = (None :: jsval option)
   \<and> makeDecision [] (9 / 10) = False
   \<and> getAllAsObject [(''autoCloseEnabled'', JBool True)] ''autoCloseEnabled'' = Some (JBool True)
   \<and> map_of [(''autoCloseEnabled'', JBool True)] ''confidenceThreshold'' = None
   \<and> makeDecision [(''autoCloseEnabled'', JBool True)] (9 / 10) = True"
proof -
  have h1: "map_of (configs (demo_db\<lparr>configs := []\<rparr>)) ''autoCloseEnabled'' = None"
           "map_of (configs (demo_db\<lparr>configs := []\<rparr>)) ''confidenceThreshold'' = None"
    by simp_all
  have h2: "getAllAsObject [(''autoCloseEnabled'', JBool True)] ''autoCloseEnabled''
              = Some (JBool True)"
    by (simp add: getAllAsObject_def)
  have h3: "map_of [(''autoCloseEnabled'', JBool True)] ''confidenceThreshold'' = None"
    by simp
  show ?thesis
    using h1 h2 h3
      config_fallbacks[where d = "demo_db\<lparr>configs := []\<rparr>" and key = "''autoCloseEnabled''"
         and e = demo_env and fallback = "JBool True" and U = demo_unicode
         and tid = "ObjectId 1" and tr = None and cfgs = "[]" and c = "9 / 10"]
      config_fallbacks[where d = "demo_db\<lparr>configs := []\<rparr>" and key = "''autoCloseEnabled''"
         and e = demo_env and fallback = "JBool True" and U = demo_unicode
         and tid = "ObjectId 1" and tr = None
         and cfgs = "[(''autoCloseEnabled'', JBool True)]" and c = "9 / 10"]
    by simp
qed

text \<open>
  The claim as stated gives both decision steps the defaults \<open>true\<close> and \<open>0.78\<close>.
  \<open>AgentService.makeDecision\<close> on an empty configuration does not auto-close at
  confidence \<open>0.95\<close>, while it does with \<open>true\<close> and \<open>0.78\<close> stored.
\<close>

theorem makeDecision_default_counterexample:
  "makeDecision [] (95 / 100) = False
   \<and> makeDecision [(''autoCloseEnabled'', JBool True), (''confidenceThreshold'', JNum (78 / 100))]
        (95 / 100) = True"
  by (simp add: makeDecision_def getAllAsObject_def js_or_def)

lemma decision_expr_policy:
  "decision_expr (JBool enabled) c (JNum t)
     = (if enabled \<and> t \<le> c then ''auto_close'' else ''human'')"
  by (simp add: decision_expr_def)

lemma makeDecision_policy_nonzero:
  "t \<noteq> 0 \<Longrightarrow>
     makeDecision [(''autoCloseEnabled'', JBool enabled), (''confidenceThreshold'', JNum t)] c
       = (enabled \<and> t \<le> c)"
  by (simp add: makeDecision_def getAllAsObject_def js_or_def)

text \<open>
  Claim C1. The decision is to auto-close exactly when auto-close is enabled and the
  confidence is at least the threshold. The decision line of the triage service follows this
  for every confidence and every configuration (\<open>decision_expr_policy\<close>), and
  \<open>AgentService.makeDecision\<close> follows it for every threshold other than zero
  (\<open>makeDecision_policy_nonzero\<close>). A configured threshold of zero is falsy, and
  \<open>makeDecision\<close> replaces it by \<open>0.78\<close>: with auto-close enabled, threshold \<open>0\<close>
  and confidence \<open>0.5\<close> it does not auto-close, where the triage service does.
\<close>

theorem makeDecision_zero_threshold:
  "makeDecision [(''autoCloseEnabled'', JBool True), (''confidenceThreshold'', JNum 0)] (1 / 2)
     = False
   \<and> decision_expr (JBool True) (1 / 2) (JNum 0) = ''auto_close''"
  by (simp add: makeDecision_def getAllAsObject_def js_or_def decision_expr_def)

end
